theory Spec2Isabelle
  imports Main
begin

section \<open>JavaScript values\<close>

text \<open>
  Tool arguments and the fields of remote responses are dynamically typed. The scalar
  JSON values are enough for this program: the tool schemas declare string, number and
  boolean properties only. Numbers are restricted to integers.
\<close>

datatype jsval = JUndefined | JNull | JBool bool | JNum int | JStr string

text \<open>Truthiness, as \<^verbatim>\<open>if (v)\<close>, \<^verbatim>\<open>a && b\<close> and \<^verbatim>\<open>a || b\<close> read it.\<close>

fun truthy :: "jsval \<Rightarrow> bool" where
  "truthy JUndefined = False"
| "truthy JNull = False"
| "truthy (JBool b) = b"
| "truthy (JNum n) = (n \<noteq> 0)"
| "truthy (JStr s) = (s \<noteq> [])"

definition js_or :: "jsval \<Rightarrow> jsval \<Rightarrow> jsval" where
  "js_or a b = (if truthy a then a else b)"

text \<open>A default parameter \<^verbatim>\<open>(p = d)\<close> takes its default exactly when the argument is undefined.\<close>

definition default_param :: "jsval \<Rightarrow> jsval \<Rightarrow> jsval" where
  "default_param v d = (if v = JUndefined then d else v)"

definition digit_char :: "nat \<Rightarrow> char" where
  "digit_char d = char_of (48 + d)"

function nat_digits :: "nat \<Rightarrow> string" where
  "nat_digits n = (if n < 10 then [digit_char n] else nat_digits (n div 10) @ [digit_char (n mod 10)])"
  by pat_completeness auto
termination
  by (relation "measure id") auto

text \<open>String conversion of a value inside a template literal.\<close>

fun js_string_of :: "jsval \<Rightarrow> string" where
  "js_string_of JUndefined = ''undefined''"
| "js_string_of JNull = ''null''"
| "js_string_of (JBool b) = (if b then ''true'' else ''false'')"
| "js_string_of (JNum n) = (if n < 0 then ''-'' @ nat_digits (nat (- n)) else nat_digits (nat n))"
| "js_string_of (JStr s) = s"

text \<open>
  Constructor options, command-line values and environment variables are statically
  typed \<^verbatim>\<open>string | undefined\<close>; \<^verbatim>\<open>a || b\<close> on them skips an absent
  and an empty string alike.
\<close>

fun present :: "string option \<Rightarrow> bool" where
  "present None = False"
| "present (Some s) = (s \<noteq> [])"

definition or_else :: "string option \<Rightarrow> string option \<Rightarrow> string option" where
  "or_else a b = (if present a then a else b)"

fun string_of_opt :: "string option \<Rightarrow> string" where
  "string_of_opt None = ''undefined''"
| "string_of_opt (Some s) = s"

section \<open>Errors, remote requests and responses\<close>

text \<open>A thrown error object, with the four properties the program reads.\<close>

record js_error =
  err_message :: jsval
  err_code :: jsval
  err_details :: jsval
  err_stack :: jsval

text \<open>
  \<^verbatim>\<open>new Error(msg)\<close>. Only the first line of the engine's stack trace is kept; no
  path of the program reads the stack of an error made this way.
\<close>

definition new_Error :: "string \<Rightarrow> js_error" where
  "new_Error msg =
     \<lparr>err_message = JStr msg, err_code = JUndefined, err_details = JUndefined,
      err_stack = JStr (''Error: '' @ msg)\<rparr>"

record structural_element =
  se_startIndex :: "int option"
  se_endIndex :: "int option"

record doc_body =
  body_content :: "structural_element list option"

record document =
  doc_documentId :: jsval
  doc_title :: jsval
  doc_body :: "doc_body option"

record drive_file =
  file_id :: jsval
  file_name :: jsval
  file_createdTime :: jsval
  file_modifiedTime :: jsval
  file_webViewLink :: jsval

record file_list =
  files :: "drive_file list option"
  nextPageToken :: jsval

record permission =
  perm_id :: jsval
  perm_type :: jsval
  perm_role :: jsval

datatype docs_request =
    InsertText int jsval  \<comment> \<open>insertText: location.index, text\<close>
  | DeleteContentRange int int  \<comment> \<open>deleteContentRange: range.startIndex, range.endIndex\<close>

datatype request =
    Files_create jsval string  \<comment> \<open>requestBody.name, requestBody.mimeType\<close>
  | Documents_get jsval  \<comment> \<open>documentId\<close>
  | Documents_batchUpdate jsval "docs_request list"  \<comment> \<open>documentId, requestBody.requests\<close>
  | Files_list jsval jsval string string  \<comment> \<open>pageSize, pageToken, q, fields\<close>
  | Files_delete jsval  \<comment> \<open>fileId\<close>
  | Files_export jsval jsval string  \<comment> \<open>fileId, mimeType, responseType\<close>
  | Permissions_create jsval string jsval jsval  \<comment> \<open>fileId, type, role, emailAddress\<close>

section \<open>Results of the client operations\<close>

record error_descriptor =
  ed_message :: jsval
  ed_code :: jsval
  ed_details :: jsval

record connection_details =
  authType :: string
  apiVersion :: string
  documentCount :: nat

datatype op_result =
    Created jsval jsval string document  \<comment> \<open>{documentId, title, url, document}\<close>
  | RawDocument document  \<comment> \<open>the document as fetched\<close>
  | DocumentList "drive_file list option" jsval  \<comment> \<open>{documents, nextPageToken}\<close>
  | Deleted jsval string  \<comment> \<open>{success: true, documentId, message}\<close>
  | Exported jsval jsval string  \<comment> \<open>{documentId, mimeType, content}\<close>
  | Shared jsval permission  \<comment> \<open>{success: true, documentId, permission}\<close>
  | Connected string string connection_details  \<comment> \<open>{connected: true, projectId, timestamp, details}\<close>
  | NotConnected string string error_descriptor  \<comment> \<open>{connected: false, projectId, timestamp, error}\<close>
  | ErrorOnly jsval  \<comment> \<open>{error: message}\<close>
  | Failed jsval  \<comment> \<open>{success: false, error: message}\<close>

section \<open>Program state and asynchronous actions\<close>

datatype console_entry =
    ConsoleLog string
  | ConsoleLogJson op_result  \<comment> \<open>console.log(JSON.stringify(result, null, 2))\<close>
  | ConsoleError string js_error  \<comment> \<open>console.error(label, error)\<close>
  | ConsoleErrorMessage string jsval  \<comment> \<open>console.error(label, error.message)\<close>

text \<open>
  The state an action runs in: the remote requests issued so far, in order, the errors
  remote calls have failed with, the lines written to the console, the system clock and
  the state of the remote service.
\<close>

record 'w state =
  requests :: "request list"
  failures :: "js_error list"
  console :: "console_entry list"
  clock :: string  \<comment> \<open>what new Date().toISOString() reads\<close>
  world :: 'w

text \<open>
  An awaited action either throws (\<open>Inl\<close>) or returns (\<open>Inr\<close>), and leaves a new state.
\<close>

type_synonym ('a, 'w) io = "'w state \<Rightarrow> (js_error + 'a) \<times> 'w state"

definition js_return :: "'a \<Rightarrow> ('a, 'w) io" where
  "js_return v s = (Inr v, s)"

definition js_throw :: "js_error \<Rightarrow> ('a, 'w) io" where
  "js_throw e s = (Inl e, s)"

definition await :: "('a, 'w) io \<Rightarrow> ('a \<Rightarrow> ('b, 'w) io) \<Rightarrow> ('b, 'w) io" where
  "await m k s = (case m s of (Inl e, s') \<Rightarrow> (Inl e, s') | (Inr v, s') \<Rightarrow> k v s')"

definition try_catch :: "('a, 'w) io \<Rightarrow> (js_error \<Rightarrow> ('a, 'w) io) \<Rightarrow> ('a, 'w) io" where
  "try_catch m h s = (case m s of (Inl e, s') \<Rightarrow> h e s' | (Inr v, s') \<Rightarrow> (Inr v, s'))"

definition console_write :: "console_entry \<Rightarrow> (unit, 'w) io" where
  "console_write l s = (Inr (), s\<lparr>console := console s @ [l]\<rparr>)"

text \<open>
  A remote call: the request is recorded, the service answers and moves on; a failure
  is recorded and thrown to the caller.
\<close>

definition remote_call :: "request \<Rightarrow> ('w \<Rightarrow> (js_error + 'a) \<times> 'w) \<Rightarrow> ('a, 'w) io" where
  "remote_call rq f s =
     (case f (world s) of
        (Inl e, w') \<Rightarrow>
          (Inl e, s\<lparr>requests := requests s @ [rq], failures := failures s @ [e], world := w'\<rparr>)
      | (Inr v, w') \<Rightarrow> (Inr v, s\<lparr>requests := requests s @ [rq], world := w'\<rparr>))"

text \<open>The requests an action issues when run in a state.\<close>

definition issued :: "('a, 'w) io \<Rightarrow> 'w state \<Rightarrow> request list" where
  "issued m s = drop (length (requests s)) (requests (snd (m s)))"

section \<open>The googleapis library\<close>

text \<open>
  The remote document and file-storage services, as the methods the client calls. Each
  takes the request's parameters and the service's state, and either fails with an error
  or answers with \<^verbatim>\<open>response.data\<close>.
\<close>

record 'w docs_api =
  documents_get :: "jsval \<Rightarrow> 'w \<Rightarrow> (js_error + document) \<times> 'w"
  documents_batchUpdate :: "jsval \<Rightarrow> docs_request list \<Rightarrow> 'w \<Rightarrow> (js_error + unit) \<times> 'w"

record 'w drive_api =
  files_create :: "jsval \<Rightarrow> string \<Rightarrow> 'w \<Rightarrow> (js_error + drive_file) \<times> 'w"
  files_list :: "jsval \<Rightarrow> jsval \<Rightarrow> string \<Rightarrow> string \<Rightarrow> 'w \<Rightarrow> (js_error + file_list) \<times> 'w"
  files_delete :: "jsval \<Rightarrow> 'w \<Rightarrow> (js_error + unit) \<times> 'w"
  files_export :: "jsval \<Rightarrow> jsval \<Rightarrow> string \<Rightarrow> 'w \<Rightarrow> (js_error + nat list) \<times> 'w"
  permissions_create :: "jsval \<Rightarrow> string \<Rightarrow> jsval \<Rightarrow> jsval \<Rightarrow> 'w \<Rightarrow> (js_error + permission) \<times> 'w"

text \<open>The authentication handle the constructor stores in \<^verbatim>\<open>this.auth\<close>.\<close>

datatype auth_handle =
    NoAuth  \<comment> \<open>the field was never assigned\<close>
  | ApiKey string  \<comment> \<open>the key itself, a string\<close>
  | GoogleAuth string "string list"  \<comment> \<open>new google.auth.GoogleAuth({keyFile, scopes})\<close>
  | OAuth2 string string string  \<comment> \<open>new google.auth.OAuth2(id, secret) with refresh_token set\<close>

record 'w googleapis =
  google_docs :: "string \<Rightarrow> auth_handle \<Rightarrow> 'w docs_api"  \<comment> \<open>google.docs({version, auth})\<close>
  google_drive :: "string \<Rightarrow> auth_handle \<Rightarrow> 'w drive_api"  \<comment> \<open>google.drive({version, auth})\<close>

text \<open>The process environment and the local filesystem.\<close>

record host =
  process_env :: "string \<rightharpoonup> string"
  fs_existsSync :: "string \<Rightarrow> bool"

section \<open>GoogleDocsClient\<close>

record client_options =
  opt_serviceAccountPath :: "string option"
  opt_apiKey :: "string option"
  opt_projectId :: "string option"
  opt_oauthClientId :: "string option"
  opt_oauthClientSecret :: "string option"
  opt_oauthRefreshToken :: "string option"

record 'w client =
  docsClient :: "'w docs_api"
  driveClient :: "'w drive_api"
  projectId :: string
  auth :: auth_handle

text \<open>What the constructor resolves from its options and the environment.\<close>

definition resolved_projectId :: "host \<Rightarrow> client_options \<Rightarrow> string" where
  "resolved_projectId h options =
     string_of_opt
       (or_else (or_else (opt_projectId options) (process_env h ''GOOGLE_CLOUD_PROJECT_ID'')) (Some []))"

definition resolved_apiKey :: "host \<Rightarrow> client_options \<Rightarrow> string option" where
  "resolved_apiKey h options = or_else (opt_apiKey options) (process_env h ''GOOGLE_API_KEY'')"

definition resolved_serviceAccountPath :: "host \<Rightarrow> client_options \<Rightarrow> string option" where
  "resolved_serviceAccountPath h options =
     or_else (opt_serviceAccountPath options) (process_env h ''GOOGLE_APPLICATION_CREDENTIALS'')"

definition resolved_oauthClientId :: "host \<Rightarrow> client_options \<Rightarrow> string option" where
  "resolved_oauthClientId h options =
     or_else (opt_oauthClientId options) (process_env h ''GOOGLE_OAUTH_CLIENT_ID'')"

definition resolved_oauthClientSecret :: "host \<Rightarrow> client_options \<Rightarrow> string option" where
  "resolved_oauthClientSecret h options =
     or_else (opt_oauthClientSecret options) (process_env h ''GOOGLE_OAUTH_CLIENT_SECRET'')"

definition resolved_oauthRefreshToken :: "host \<Rightarrow> client_options \<Rightarrow> string option" where
  "resolved_oauthRefreshToken h options =
     or_else (opt_oauthRefreshToken options) (process_env h ''GOOGLE_OAUTH_REFRESH_TOKEN'')"

definition oauth_complete :: "host \<Rightarrow> client_options \<Rightarrow> bool" where
  "oauth_complete h options =
     (present (resolved_oauthClientId h options) \<and> present (resolved_oauthClientSecret h options)
      \<and> present (resolved_oauthRefreshToken h options))"

definition auth_scopes :: "string list" where
  "auth_scopes = [''https://www.googleapis.com/auth/documents'', ''https://www.googleapis.com/auth/drive'']"

text \<open>The branch of the constructor that assigns \<^verbatim>\<open>this.auth\<close>.\<close>

definition resolve_auth :: "host \<Rightarrow> client_options \<Rightarrow> (auth_handle, 'w) io" where
  "resolve_auth h options =
     (let apiKey = resolved_apiKey h options;
          serviceAccountPath = resolved_serviceAccountPath h options
      in
      if present apiKey then
        await (console_write (ConsoleLog ''Using API key authentication'')) (\<lambda>_.
        js_return (ApiKey (string_of_opt apiKey)))
      else if present serviceAccountPath then
        (if \<not> fs_existsSync h (string_of_opt serviceAccountPath) then
           js_throw (new_Error
             (''Service account key file not found at: '' @ string_of_opt serviceAccountPath))
         else
           await (console_write (ConsoleLog ''Using service account authentication'')) (\<lambda>_.
           js_return (GoogleAuth (string_of_opt serviceAccountPath) auth_scopes)))
      else if oauth_complete h options then
        await (console_write (ConsoleLog ''Using OAuth2 authentication'')) (\<lambda>_.
        js_return (OAuth2 (string_of_opt (resolved_oauthClientId h options))
          (string_of_opt (resolved_oauthClientSecret h options))
          (string_of_opt (resolved_oauthRefreshToken h options))))
      else js_return NoAuth)"

definition GoogleDocsClient :: "host \<Rightarrow> 'w googleapis \<Rightarrow> client_options \<Rightarrow> ('w client, 'w) io" where
  "GoogleDocsClient h google options =
     (if resolved_projectId h options = [] then
        js_throw (new_Error
          ''GOOGLE_CLOUD_PROJECT_ID environment variable or projectId parameter is required'')
      else if \<not> present (resolved_apiKey h options) \<and> \<not> present (resolved_serviceAccountPath h options)
              \<and> \<not> oauth_complete h options then
        js_throw (new_Error
          ''Either GOOGLE_API_KEY, GOOGLE_APPLICATION_CREDENTIALS, or OAuth credentials must be provided'')
      else
        await (resolve_auth h options) (\<lambda>a.
        await (console_write (ConsoleLog ''Google Docs client initialized'')) (\<lambda>_.
        js_return \<lparr>docsClient = google_docs google ''v1'' a, driveClient = google_drive google ''v3'' a,
                   projectId = resolved_projectId h options, auth = a\<rparr>)))"

subsection \<open>Remote calls of the client\<close>

definition docs_documents_get :: "'w client \<Rightarrow> jsval \<Rightarrow> (document, 'w) io" where
  "docs_documents_get this documentId =
     remote_call (Documents_get documentId) (documents_get (docsClient this) documentId)"

definition docs_documents_batchUpdate :: "'w client \<Rightarrow> jsval \<Rightarrow> docs_request list \<Rightarrow> (unit, 'w) io" where
  "docs_documents_batchUpdate this documentId reqs =
     remote_call (Documents_batchUpdate documentId reqs)
       (documents_batchUpdate (docsClient this) documentId reqs)"

definition drive_files_create :: "'w client \<Rightarrow> jsval \<Rightarrow> string \<Rightarrow> (drive_file, 'w) io" where
  "drive_files_create this name mimeType =
     remote_call (Files_create name mimeType) (files_create (driveClient this) name mimeType)"

definition drive_files_list :: "'w client \<Rightarrow> jsval \<Rightarrow> jsval \<Rightarrow> string \<Rightarrow> string \<Rightarrow> (file_list, 'w) io" where
  "drive_files_list this pageSize pageToken q fieldMask =
     remote_call (Files_list pageSize pageToken q fieldMask)
       (files_list (driveClient this) pageSize pageToken q fieldMask)"

definition drive_files_delete :: "'w client \<Rightarrow> jsval \<Rightarrow> (unit, 'w) io" where
  "drive_files_delete this fileId =
     remote_call (Files_delete fileId) (files_delete (driveClient this) fileId)"

definition drive_files_export :: "'w client \<Rightarrow> jsval \<Rightarrow> jsval \<Rightarrow> string \<Rightarrow> (nat list, 'w) io" where
  "drive_files_export this fileId mimeType responseType =
     remote_call (Files_export fileId mimeType responseType)
       (files_export (driveClient this) fileId mimeType responseType)"

definition drive_permissions_create ::
  "'w client \<Rightarrow> jsval \<Rightarrow> string \<Rightarrow> jsval \<Rightarrow> jsval \<Rightarrow> (permission, 'w) io" where
  "drive_permissions_create this fileId type role emailAddress =
     remote_call (Permissions_create fileId type role emailAddress)
       (permissions_create (driveClient this) fileId type role emailAddress)"

subsection \<open>Helpers\<close>

definition convertContentToRequests :: "jsval \<Rightarrow> docs_request list" where
  "convertContentToRequests content = [InsertText 1 content]"

definition getAuthType :: "'w client \<Rightarrow> string" where
  "getAuthType this =
     (case auth this of
        ApiKey _ \<Rightarrow> ''API Key''
      | GoogleAuth _ _ \<Rightarrow> ''Service Account''
      | OAuth2 _ _ _ \<Rightarrow> ''OAuth2''
      | NoAuth \<Rightarrow> ''Unknown'')"

text \<open>\<^verbatim>\<open>n || d\<close> on a number that may be null or undefined.\<close>

fun number_or :: "int option \<Rightarrow> int \<Rightarrow> int" where
  "number_or None d = d"
| "number_or (Some n) d = (if n = 0 then d else n)"

text \<open>\<^verbatim>\<open>Buffer.from(data).toString('base64')\<close> on a list of bytes.\<close>

definition base64_char :: "nat \<Rightarrow> char" where
  "base64_char n =
     ''ABCDEFGHIJKLMNOPQRSTUVWXYZabcdefghijklmnopqrstuvwxyz0123456789+/'' ! (n mod 64)"

fun base64 :: "nat list \<Rightarrow> string" where
  "base64 [] = []"
| "base64 [a] = [base64_char (a div 4), base64_char ((a mod 4) * 16), CHR ''='', CHR ''='']"
| "base64 [a, b] =
     [base64_char (a div 4), base64_char ((a mod 4) * 16 + b div 16), base64_char ((b mod 16) * 4),
      CHR ''='']"
| "base64 (a # b # c # rest) =
     [base64_char (a div 4), base64_char ((a mod 4) * 16 + b div 16),
      base64_char ((b mod 16) * 4 + c div 64), base64_char (c mod 64)] @ base64 rest"

definition date_toISOString :: "(string, 'w) io" where
  "date_toISOString s = (Inr (clock s), s)"

definition mime_document :: string where
  "mime_document = ''application/vnd.google-apps.document''"

text \<open>A string literal cannot end in a single quote, so the closing quote is appended.\<close>

definition single_quote :: string where
  "single_quote = [CHR 0x27]"

definition list_query :: string where
  "list_query = ''mimeType='application/vnd.google-apps.document'' @ single_quote"

definition search_query :: "jsval \<Rightarrow> string" where
  "search_query query =
     ''mimeType='application/vnd.google-apps.document' and (name contains '' @ single_quote
       @ js_string_of query @ ''' or fullText contains '' @ single_quote
       @ js_string_of query @ ''')''"

definition list_fields :: string where
  "list_fields = ''nextPageToken, files(id, name, createdTime, modifiedTime, webViewLink)''"

subsection \<open>The nine operations\<close>

definition createDocument :: "'w client \<Rightarrow> jsval \<Rightarrow> jsval \<Rightarrow> (op_result, 'w) io" where
  "createDocument this title content =
     try_catch
       (await (drive_files_create this title mime_document) (\<lambda>driveResponse.
        let documentId = file_id driveResponse in
        await (if truthy content \<and> truthy documentId then
                 (let reqs = convertContentToRequests content in
                  if length reqs > 0 then docs_documents_batchUpdate this documentId reqs
                  else js_return ())
               else js_return ()) (\<lambda>_.
        await (docs_documents_get this (js_or documentId (JStr []))) (\<lambda>document.
        js_return (Created documentId title
          (''https://docs.google.com/document/d/'' @ js_string_of documentId @ ''/edit'') document)))))
       (\<lambda>error.
        await (console_write (ConsoleError ''Error creating document:'' error)) (\<lambda>_.
        js_return (ErrorOnly (err_message error))))"

definition getDocument :: "'w client \<Rightarrow> jsval \<Rightarrow> (op_result, 'w) io" where
  "getDocument this documentId =
     try_catch
       (await (docs_documents_get this documentId) (\<lambda>response.
        js_return (RawDocument response)))
       (\<lambda>error.
        await (console_write (ConsoleError ''Error getting document:'' error)) (\<lambda>_.
        js_return (ErrorOnly (err_message error))))"

text \<open>
  The clearing step of \<^verbatim>\<open>updateDocument\<close>: with the current document in hand, the
  delete request goes out when the body has a content list of more than one element.
\<close>

definition clear_document :: "'w client \<Rightarrow> jsval \<Rightarrow> document \<Rightarrow> (unit, 'w) io" where
  "clear_document this documentId currentDoc =
     (case doc_body currentDoc of
        None \<Rightarrow> js_return ()
      | Some body \<Rightarrow>
          (case body_content body of
             None \<Rightarrow> js_return ()
           | Some content \<Rightarrow>
               if length content > 1 then
                 (let endIndex = number_or (se_endIndex (content ! (length content - 1))) 1 in
                  docs_documents_batchUpdate this documentId [DeleteContentRange 1 (endIndex - 1)])
               else js_return ()))"

definition updateDocument :: "'w client \<Rightarrow> jsval \<Rightarrow> jsval \<Rightarrow> jsval \<Rightarrow> (op_result, 'w) io" where
  "updateDocument this documentId content replaceAll_arg =
     (let replaceAll = default_param replaceAll_arg (JBool False) in
      try_catch
        (await (if truthy replaceAll then
                  await (docs_documents_get this documentId) (\<lambda>currentDoc.
                  clear_document this documentId currentDoc)
                else js_return ()) (\<lambda>_.
         let reqs = convertContentToRequests content in
         await (if length reqs > 0 then docs_documents_batchUpdate this documentId reqs
                else js_return ()) (\<lambda>_.
         await (docs_documents_get this documentId) (\<lambda>document.
         js_return (RawDocument document)))))
        (\<lambda>error.
         await (console_write (ConsoleError ''Error updating document:'' error)) (\<lambda>_.
         js_return (ErrorOnly (err_message error)))))"

definition listDocuments :: "'w client \<Rightarrow> jsval \<Rightarrow> jsval \<Rightarrow> (op_result, 'w) io" where
  "listDocuments this pageSize_arg pageToken =
     (let pageSize = default_param pageSize_arg (JNum 10) in
      try_catch
        (await (drive_files_list this pageSize pageToken list_query list_fields) (\<lambda>response.
         js_return (DocumentList (files response) (nextPageToken response))))
        (\<lambda>error.
         await (console_write (ConsoleError ''Error listing documents:'' error)) (\<lambda>_.
         js_return (ErrorOnly (err_message error)))))"

definition deleteDocument :: "'w client \<Rightarrow> jsval \<Rightarrow> (op_result, 'w) io" where
  "deleteDocument this documentId =
     try_catch
       (await (drive_files_delete this documentId) (\<lambda>_.
        js_return (Deleted documentId
          (''Document '' @ js_string_of documentId @ '' successfully deleted''))))
       (\<lambda>error.
        await (console_write (ConsoleError ''Error deleting document:'' error)) (\<lambda>_.
        js_return (Failed (err_message error))))"

definition exportDocument :: "'w client \<Rightarrow> jsval \<Rightarrow> jsval \<Rightarrow> (op_result, 'w) io" where
  "exportDocument this documentId mimeType_arg =
     (let mimeType = default_param mimeType_arg (JStr ''application/pdf'') in
      try_catch
        (await (drive_files_export this documentId mimeType ''arraybuffer'') (\<lambda>response.
         let base64Content = base64 response in
         js_return (Exported documentId mimeType base64Content)))
        (\<lambda>error.
         await (console_write (ConsoleError ''Error exporting document:'' error)) (\<lambda>_.
         js_return (ErrorOnly (err_message error)))))"

definition shareDocument :: "'w client \<Rightarrow> jsval \<Rightarrow> jsval \<Rightarrow> jsval \<Rightarrow> (op_result, 'w) io" where
  "shareDocument this documentId emailAddress role_arg =
     (let role = default_param role_arg (JStr ''reader'') in
      try_catch
        (await (drive_permissions_create this documentId ''user'' role emailAddress) (\<lambda>response.
         js_return (Shared documentId response)))
        (\<lambda>error.
         await (console_write (ConsoleError ''Error sharing document:'' error)) (\<lambda>_.
         js_return (Failed (err_message error)))))"

definition searchDocuments :: "'w client \<Rightarrow> jsval \<Rightarrow> jsval \<Rightarrow> jsval \<Rightarrow> (op_result, 'w) io" where
  "searchDocuments this query pageSize_arg pageToken =
     (let pageSize = default_param pageSize_arg (JNum 10) in
      try_catch
        (await (drive_files_list this pageSize pageToken (search_query query) list_fields) (\<lambda>response.
         js_return (DocumentList (files response) (nextPageToken response))))
        (\<lambda>error.
         await (console_write (ConsoleError ''Error searching documents:'' error)) (\<lambda>_.
         js_return (ErrorOnly (err_message error)))))"

definition verifyConnection :: "'w client \<Rightarrow> (op_result, 'w) io" where
  "verifyConnection this =
     try_catch
       (await (drive_files_list this (JNum 1) JUndefined list_query ''files(id, name)'') (\<lambda>response.
        await date_toISOString (\<lambda>timestamp.
        js_return (Connected (projectId this) timestamp
          \<lparr>authType = getAuthType this, apiVersion = ''v1'',
           documentCount = (case files response of None \<Rightarrow> 0 | Some fs \<Rightarrow> length fs)\<rparr>))))
       (\<lambda>error.
        await (console_write (ConsoleError ''Error verifying Google Docs API connection:'' error)) (\<lambda>_.
        await date_toISOString (\<lambda>timestamp.
        js_return (NotConnected (projectId this) timestamp
          \<lparr>ed_message = err_message error,
           ed_code = js_or (err_code error) (JStr ''UNKNOWN_ERROR''),
           ed_details = js_or (err_details error) (err_stack error)\<rparr>))))"

section \<open>The tool dispatcher\<close>

record tool =
  tool_name :: string
  tool_required :: "string list"

text \<open>The tools the ListTools handler advertises (descriptions and property schemas left out).\<close>

definition tools :: "tool list" where
  "tools =
     [\<lparr>tool_name = ''google_docs_create'', tool_required = [''title'']\<rparr>,
      \<lparr>tool_name = ''google_docs_get'', tool_required = [''documentId'']\<rparr>,
      \<lparr>tool_name = ''google_docs_update'', tool_required = [''documentId'', ''content'']\<rparr>,
      \<lparr>tool_name = ''google_docs_list'', tool_required = []\<rparr>,
      \<lparr>tool_name = ''google_docs_delete'', tool_required = [''documentId'']\<rparr>,
      \<lparr>tool_name = ''google_docs_export'', tool_required = [''documentId'']\<rparr>,
      \<lparr>tool_name = ''google_docs_share'', tool_required = [''documentId'', ''emailAddress'']\<rparr>,
      \<lparr>tool_name = ''google_docs_search'', tool_required = [''query'']\<rparr>,
      \<lparr>tool_name = ''google_docs_verify_connection'', tool_required = []\<rparr>]"

definition tool_names :: "string list" where
  "tool_names = map tool_name tools"

record call_tool_request =
  params_name :: string
  params_arguments :: "(string \<rightharpoonup> jsval) option"

datatype content_item =
    TextJson op_result  \<comment> \<open>{type: 'text', text: JSON.stringify(result, null, 2)}\<close>
  | TextPlain string  \<comment> \<open>{type: 'text', text}\<close>

record call_tool_result =
  result_content :: "content_item list"
  isError :: "bool option"

text \<open>The only member of the protocol library's error codes that the program uses.\<close>

datatype ErrorCode = MethodNotFound

definition arg :: "(string \<rightharpoonup> jsval) \<Rightarrow> string \<Rightarrow> jsval" where
  "arg args k = (case args k of None \<Rightarrow> JUndefined | Some v \<Rightarrow> v)"

definition json_result :: "op_result \<Rightarrow> (call_tool_result, 'w) io" where
  "json_result result = js_return \<lparr>result_content = [TextJson result], isError = None\<rparr>"

text \<open>
  The CallTool request handler. \<open>McpError\<close> is the protocol library's error constructor.
  A handler that throws (\<open>Inl\<close>) is answered by the protocol library with a protocol-level
  error; a handler that returns (\<open>Inr\<close>) is answered with the returned tool result.
\<close>

definition CallTool_handler ::
  "(ErrorCode \<Rightarrow> string \<Rightarrow> js_error) \<Rightarrow> 'w client \<Rightarrow> call_tool_request \<Rightarrow> (call_tool_result, 'w) io" where
  "CallTool_handler McpError googleDocs request =
     try_catch
       (let args = (case params_arguments request of None \<Rightarrow> Map.empty | Some a \<Rightarrow> a);
            name = params_name request
        in
        if name = ''google_docs_create'' then
          await (createDocument googleDocs (arg args ''title'') (arg args ''content'')) json_result
        else if name = ''google_docs_get'' then
          await (getDocument googleDocs (arg args ''documentId'')) json_result
        else if name = ''google_docs_update'' then
          await (updateDocument googleDocs (arg args ''documentId'') (arg args ''content'')
                   (arg args ''replaceAll'')) json_result
        else if name = ''google_docs_list'' then
          await (listDocuments googleDocs (arg args ''pageSize'') (arg args ''pageToken'')) json_result
        else if name = ''google_docs_delete'' then
          await (deleteDocument googleDocs (arg args ''documentId'')) json_result
        else if name = ''google_docs_export'' then
          await (exportDocument googleDocs (arg args ''documentId'') (arg args ''mimeType'')) json_result
        else if name = ''google_docs_share'' then
          await (shareDocument googleDocs (arg args ''documentId'') (arg args ''emailAddress'')
                   (arg args ''role'')) json_result
        else if name = ''google_docs_search'' then
          await (searchDocuments googleDocs (arg args ''query'') (arg args ''pageSize'')
                   (arg args ''pageToken'')) json_result
        else if name = ''google_docs_verify_connection'' then
          await (verifyConnection googleDocs) json_result
        else
          js_throw (McpError MethodNotFound (''Unknown tool: '' @ name)))
       (\<lambda>error.
        await (console_write
                 (ConsoleError (''Error executing tool '' @ params_name request @ '':'') error)) (\<lambda>_.
        js_return
          \<lparr>result_content =
             [TextPlain (''Google Docs API error: '' @ js_string_of (err_message error))],
           isError = Some True\<rparr>))"

section \<open>The connectivity check\<close>















section \<open>Example services\<close>

text \<open>
  Two remote services to run the program against: one where every call succeeds and a
  fetched document is always the given one, and one where every call fails with the
  given error.
\<close>

definition sample_document :: "structural_element list \<Rightarrow> document" where
  "sample_document blocks =
     \<lparr>doc_documentId = JStr ''doc1'', doc_title = JStr ''Notes'',
      doc_body = Some \<lparr>body_content = Some blocks\<rparr>\<rparr>"

definition sample_file :: drive_file where
  "sample_file =
     \<lparr>file_id = JStr ''doc1'', file_name = JStr ''Notes'', file_createdTime = JUndefined,
      file_modifiedTime = JUndefined, file_webViewLink = JUndefined\<rparr>"

definition steady_docs :: "document \<Rightarrow> unit docs_api" where
  "steady_docs d =
     \<lparr>documents_get = (\<lambda>_ w. (Inr d, w)),
      documents_batchUpdate = (\<lambda>_ _ w. (Inr (), w))\<rparr>"

definition steady_drive :: "unit drive_api" where
  "steady_drive =
     \<lparr>files_create = (\<lambda>_ _ w. (Inr sample_file, w)),
      files_list = (\<lambda>_ _ _ _ w. (Inr \<lparr>files = Some [sample_file], nextPageToken = JUndefined\<rparr>, w)),
      files_delete = (\<lambda>_ w. (Inr (), w)),
      files_export = (\<lambda>_ _ _ w. (Inr [72, 105], w)),
      permissions_create =
        (\<lambda>_ _ role _ w. (Inr \<lparr>perm_id = JStr ''perm1'', perm_type = JStr ''user'', perm_role = role\<rparr>, w))\<rparr>"

definition steady_google :: "document \<Rightarrow> unit googleapis" where
  "steady_google d = \<lparr>google_docs = (\<lambda>_ _. steady_docs d), google_drive = (\<lambda>_ _. steady_drive)\<rparr>"

definition broken_docs :: "js_error \<Rightarrow> unit docs_api" where
  "broken_docs e =
     \<lparr>documents_get = (\<lambda>_ w. (Inl e, w)),
      documents_batchUpdate = (\<lambda>_ _ w. (Inl e, w))\<rparr>"

definition broken_drive :: "js_error \<Rightarrow> unit drive_api" where
  "broken_drive e =
     \<lparr>files_create = (\<lambda>_ _ w. (Inl e, w)),
      files_list = (\<lambda>_ _ _ _ w. (Inl e, w)),
      files_delete = (\<lambda>_ w. (Inl e, w)),
      files_export = (\<lambda>_ _ _ w. (Inl e, w)),
      permissions_create = (\<lambda>_ _ _ _ w. (Inl e, w))\<rparr>"

definition broken_google :: "js_error \<Rightarrow> unit googleapis" where
  "broken_google e = \<lparr>google_docs = (\<lambda>_ _. broken_docs e), google_drive = (\<lambda>_ _. broken_drive e)\<rparr>"

definition start :: "unit state" where
  "start = \<lparr>requests = [], failures = [], console = [], clock = ''2025-04-15T07:30:00.000Z'', world = ()\<rparr>"

text \<open>The first block of every document, and a block of text that runs to a given index.\<close>

definition first_block :: structural_element where
  "first_block = \<lparr>se_startIndex = None, se_endIndex = Some 1\<rparr>"

definition text_block :: "int \<Rightarrow> structural_element" where
  "text_block e = \<lparr>se_startIndex = Some 1, se_endIndex = Some e\<rparr>"

text \<open>A host with a project id in its environment and one key file on disk.\<close>

definition sample_host :: host where
  "sample_host =
     \<lparr>process_env = [''GOOGLE_CLOUD_PROJECT_ID'' \<mapsto> ''my-project''],
      fs_existsSync = (\<lambda>p. p = ''/keys/service-account.json'')\<rparr>"

definition no_options :: client_options where
  "no_options =
     \<lparr>opt_serviceAccountPath = None, opt_apiKey = None, opt_projectId = None,
      opt_oauthClientId = None, opt_oauthClientSecret = None, opt_oauthRefreshToken = None\<rparr>"


text \<open>A client holding a static API key, on the given services.\<close>

definition api_key_client :: "unit googleapis \<Rightarrow> unit client" where
  "api_key_client google =
     \<lparr>docsClient = google_docs google ''v1'' (ApiKey ''AIza-key''),
      driveClient = google_drive google ''v3'' (ApiKey ''AIza-key''),
      projectId = ''my-project'', auth = ApiKey ''AIza-key''\<rparr>"

text \<open>A network failure: no code, no details, a stack trace.\<close>

definition hang_up :: js_error where
  "hang_up =
     \<lparr>err_message = JStr ''socket hang up'', err_code = JUndefined, err_details = JUndefined,
      err_stack = JStr ''Error: socket hang up at TLSSocket.onHangUp (node:_http_client:524:26)''\<rparr>"

text \<open>A permission failure as the remote service reports it.\<close>

definition forbidden :: js_error where
  "forbidden =
     \<lparr>err_message = JStr ''Request had insufficient authentication scopes.'', err_code = JNum 403,
      err_details = JUndefined, err_stack = JStr ''Error: Request had insufficient authentication scopes.''\<rparr>"


text \<open>The protocol library's error constructor, by the message format of its sources.\<close>

definition sample_McpError :: "ErrorCode \<Rightarrow> string \<Rightarrow> js_error" where
  "sample_McpError c msg =
     \<lparr>err_message = JStr (''MCP error -32601: '' @ msg), err_code = JNum (- 32601),
      err_details = JUndefined, err_stack = JStr (''McpError: MCP error -32601: '' @ msg)\<rparr>"


section \<open>Shapes of a caught failure\<close>

text \<open>
  What an operation makes of the error a remote call failed with: the message alone,
  the message under \<^verbatim>\<open>success: false\<close>, or the descriptor of the connection check.
\<close>

definition message_only :: "js_error \<Rightarrow> op_result" where
  "message_only e = ErrorOnly (err_message e)"

definition unsuccessful :: "js_error \<Rightarrow> op_result" where
  "unsuccessful e = Failed (err_message e)"

definition not_connected :: "'w client \<Rightarrow> 'w state \<Rightarrow> js_error \<Rightarrow> op_result" where
  "not_connected this s e =
     NotConnected (projectId this) (clock s)
       \<lparr>ed_message = err_message e,
        ed_code = js_or (err_code e) (JStr ''UNKNOWN_ERROR''),
        ed_details = js_or (err_details e) (err_stack e)\<rparr>"

text \<open>
  An operation run in a state catches its failures as a given shape when it returns
  (it does not throw), and either no remote call failed during the run, or exactly one
  did and the result is the shape of its error.
\<close>

definition caught_as :: "(js_error \<Rightarrow> op_result) \<Rightarrow> (op_result, 'w) io \<Rightarrow> 'w state \<Rightarrow> bool" where
  "caught_as shape m s =
     (case m s of
        (Inl _, _) \<Rightarrow> False
      | (Inr r, s') \<Rightarrow>
          (case drop (length (failures s)) (failures s') of
             [] \<Rightarrow> True
           | [e] \<Rightarrow> r = shape e
           | _ \<Rightarrow> False))"

section \<open>Unfolding the actions\<close>

lemmas client_calls =
  docs_documents_get_def docs_documents_batchUpdate_def drive_files_create_def drive_files_list_def
  drive_files_delete_def drive_files_export_def drive_permissions_create_def

lemmas io_defs =
  await_def try_catch_def js_return_def js_throw_def console_write_def remote_call_def
  date_toISOString_def Let_def

lemmas shape_defs = caught_as_def message_only_def unsuccessful_def not_connected_def

lemmas resolved_defs =
  resolved_projectId_def resolved_apiKey_def resolved_serviceAccountPath_def resolved_oauthClientId_def
  resolved_oauthClientSecret_def resolved_oauthRefreshToken_def oauth_complete_def or_else_def

section \<open>The constructor\<close>

lemma resolve_auth_result:
  "fst (resolve_auth h options s) =
     (if present (resolved_apiKey h options) then Inr (ApiKey (string_of_opt (resolved_apiKey h options)))
      else if present (resolved_serviceAccountPath h options) then
        (if fs_existsSync h (string_of_opt (resolved_serviceAccountPath h options))
         then Inr (GoogleAuth (string_of_opt (resolved_serviceAccountPath h options)) auth_scopes)
         else Inl (new_Error (''Service account key file not found at: ''
                @ string_of_opt (resolved_serviceAccountPath h options))))
      else if oauth_complete h options then
        Inr (OAuth2 (string_of_opt (resolved_oauthClientId h options))
          (string_of_opt (resolved_oauthClientSecret h options))
          (string_of_opt (resolved_oauthRefreshToken h options)))
      else Inr NoAuth)"
  by (simp add: resolve_auth_def io_defs)

lemma resolve_auth_no_remote:
  "requests (snd (resolve_auth h options s)) = requests s
   \<and> failures (snd (resolve_auth h options s)) = failures s
   \<and> clock (snd (resolve_auth h options s)) = clock s
   \<and> world (snd (resolve_auth h options s)) = world s"
  by (simp add: resolve_auth_def io_defs)

lemma GoogleDocsClient_no_remote:
  "requests (snd (GoogleDocsClient h google options s)) = requests s
   \<and> failures (snd (GoogleDocsClient h google options s)) = failures s
   \<and> clock (snd (GoogleDocsClient h google options s)) = clock s
   \<and> world (snd (GoogleDocsClient h google options s)) = world s"
  using resolve_auth_no_remote [of h options s]
  by (cases "resolve_auth h options s"; cases "fst (resolve_auth h options s)")
     (auto simp add: GoogleDocsClient_def io_defs split: sum.splits)

lemma GoogleDocsClient_result:
  "fst (GoogleDocsClient h google options s) =
     (if resolved_projectId h options = [] then
        Inl (new_Error ''GOOGLE_CLOUD_PROJECT_ID environment variable or projectId parameter is required'')
      else if \<not> present (resolved_apiKey h options) \<and> \<not> present (resolved_serviceAccountPath h options)
              \<and> \<not> oauth_complete h options then
        Inl (new_Error
          ''Either GOOGLE_API_KEY, GOOGLE_APPLICATION_CREDENTIALS, or OAuth credentials must be provided'')
      else
        (case fst (resolve_auth h options s) of
           Inl e \<Rightarrow> Inl e
         | Inr a \<Rightarrow> Inr \<lparr>docsClient = google_docs google ''v1'' a, driveClient = google_drive google ''v3'' a,
                   projectId = resolved_projectId h options, auth = a\<rparr>))"
  by (cases "resolve_auth h options s")
     (auto simp add: GoogleDocsClient_def io_defs split: sum.splits)

lemma GoogleDocsClient_authType:
  assumes "fst (GoogleDocsClient h google options s0) = Inr this"
  shows "projectId this = resolved_projectId h options
       \<and> getAuthType this =
          (if present (resolved_apiKey h options) then ''API Key''
           else if present (resolved_serviceAccountPath h options) then ''Service Account''
           else ''OAuth2'')"
  using assms unfolding GoogleDocsClient_result resolve_auth_result
  by (auto simp add: getAuthType_def split: if_splits)

text \<open>
  C4, as amended. A missing project id fails the construction whatever the credentials.
  With a project id, the first match wins: an API key (argument or environment) selects
  the API Key strategy whatever else is present; otherwise a service-account key-file
  path selects the Service Account strategy when the file exists, and fails the
  construction, naming the path, when it does not (a complete OAuth2 triple is not tried
  then); otherwise a complete OAuth2 triple selects the OAuth2 strategy; otherwise the
  construction fails. No outcome issues a remote call or touches the remote service.
\<close>

theorem GoogleDocsClient_first_match:
  "(resolved_projectId h options = [] \<longrightarrow>
      fst (GoogleDocsClient h google options s) =
        Inl (new_Error ''GOOGLE_CLOUD_PROJECT_ID environment variable or projectId parameter is required''))
   \<and> (resolved_projectId h options \<noteq> [] \<and> present (resolved_apiKey h options) \<longrightarrow>
      (\<exists>this. fst (GoogleDocsClient h google options s) = Inr this
         \<and> auth this = ApiKey (string_of_opt (resolved_apiKey h options))))
   \<and> (resolved_projectId h options \<noteq> [] \<and> \<not> present (resolved_apiKey h options)
        \<and> present (resolved_serviceAccountPath h options)
        \<and> fs_existsSync h (string_of_opt (resolved_serviceAccountPath h options)) \<longrightarrow>
      (\<exists>this. fst (GoogleDocsClient h google options s) = Inr this
         \<and> auth this = GoogleAuth (string_of_opt (resolved_serviceAccountPath h options)) auth_scopes))
   \<and> (resolved_projectId h options \<noteq> [] \<and> \<not> present (resolved_apiKey h options)
        \<and> present (resolved_serviceAccountPath h options)
        \<and> \<not> fs_existsSync h (string_of_opt (resolved_serviceAccountPath h options)) \<longrightarrow>
      fst (GoogleDocsClient h google options s) =
        Inl (new_Error (''Service account key file not found at: ''
               @ string_of_opt (resolved_serviceAccountPath h options))))
   \<and> (resolved_projectId h options \<noteq> [] \<and> \<not> present (resolved_apiKey h options)
        \<and> \<not> present (resolved_serviceAccountPath h options) \<and> oauth_complete h options \<longrightarrow>
      (\<exists>this. fst (GoogleDocsClient h google options s) = Inr this
         \<and> auth this = OAuth2 (string_of_opt (resolved_oauthClientId h options))
              (string_of_opt (resolved_oauthClientSecret h options))
              (string_of_opt (resolved_oauthRefreshToken h options))))
   \<and> (resolved_projectId h options \<noteq> [] \<and> \<not> present (resolved_apiKey h options)
        \<and> \<not> present (resolved_serviceAccountPath h options) \<and> \<not> oauth_complete h options \<longrightarrow>
      fst (GoogleDocsClient h google options s) =
        Inl (new_Error
          ''Either GOOGLE_API_KEY, GOOGLE_APPLICATION_CREDENTIALS, or OAuth credentials must be provided''))
   \<and> requests (snd (GoogleDocsClient h google options s)) = requests s
   \<and> world (snd (GoogleDocsClient h google options s)) = world s"
  unfolding GoogleDocsClient_result resolve_auth_result
  using GoogleDocsClient_no_remote [of h google options s]
  by simp

text \<open>
  The theorem at five constructions: an API key beside a key-file path that does not
  exist, a key file that exists beside an OAuth2 triple, an OAuth2 triple alone, a lone
  OAuth2 client id, and an API key with no project id.
\<close>

theorem GoogleDocsClient_first_match_witness:
  "(resolved_projectId sample_host
      (no_options\<lparr>opt_apiKey := Some ''AIza-key'', opt_serviceAccountPath := Some ''/keys/missing.json''\<rparr>) \<noteq> []
    \<and> present (resolved_apiKey sample_host
      (no_options\<lparr>opt_apiKey := Some ''AIza-key'', opt_serviceAccountPath := Some ''/keys/missing.json''\<rparr>))
    \<and> (\<exists>this. fst (GoogleDocsClient sample_host (steady_google (sample_document []))
           (no_options\<lparr>opt_apiKey := Some ''AIza-key'', opt_serviceAccountPath := Some ''/keys/missing.json''\<rparr>)
           start) = Inr this
         \<and> auth this = ApiKey ''AIza-key''))
   \<and> (\<not> present (resolved_apiKey sample_host
          (no_options\<lparr>opt_serviceAccountPath := Some ''/keys/service-account.json'',
             opt_oauthClientId := Some ''id'', opt_oauthClientSecret := Some ''secret'',
             opt_oauthRefreshToken := Some ''token''\<rparr>))
    \<and> fs_existsSync sample_host ''/keys/service-account.json''
    \<and> (\<exists>this. fst (GoogleDocsClient sample_host (steady_google (sample_document []))
           (no_options\<lparr>opt_serviceAccountPath := Some ''/keys/service-account.json'',
             opt_oauthClientId := Some ''id'', opt_oauthClientSecret := Some ''secret'',
             opt_oauthRefreshToken := Some ''token''\<rparr>) start) = Inr this
         \<and> auth this = GoogleAuth ''/keys/service-account.json'' auth_scopes))
   \<and> (oauth_complete sample_host
          (no_options\<lparr>opt_oauthClientId := Some ''id'', opt_oauthClientSecret := Some ''secret'',
             opt_oauthRefreshToken := Some ''token''\<rparr>)
    \<and> (\<exists>this. fst (GoogleDocsClient sample_host (steady_google (sample_document []))
           (no_options\<lparr>opt_oauthClientId := Some ''id'', opt_oauthClientSecret := Some ''secret'',
             opt_oauthRefreshToken := Some ''token''\<rparr>) start) = Inr this
         \<and> auth this = OAuth2 ''id'' ''secret'' ''token''))
   \<and> (\<not> oauth_complete sample_host (no_options\<lparr>opt_oauthClientId := Some ''id''\<rparr>)
    \<and> fst (GoogleDocsClient sample_host (steady_google (sample_document []))
           (no_options\<lparr>opt_oauthClientId := Some ''id''\<rparr>) start) =
        Inl (new_Error
          ''Either GOOGLE_API_KEY, GOOGLE_APPLICATION_CREDENTIALS, or OAuth credentials must be provided''))
   \<and> (resolved_projectId (sample_host\<lparr>process_env := Map.empty\<rparr>)
          (no_options\<lparr>opt_apiKey := Some ''AIza-key''\<rparr>) = []
    \<and> fst (GoogleDocsClient (sample_host\<lparr>process_env := Map.empty\<rparr>) (steady_google (sample_document []))
           (no_options\<lparr>opt_apiKey := Some ''AIza-key''\<rparr>) start) =
        Inl (new_Error ''GOOGLE_CLOUD_PROJECT_ID environment variable or projectId parameter is required''))"
  using
    GoogleDocsClient_first_match [of sample_host
      "no_options\<lparr>opt_apiKey := Some ''AIza-key'', opt_serviceAccountPath := Some ''/keys/missing.json''\<rparr>"
      "steady_google (sample_document [])" start]
    GoogleDocsClient_first_match [of sample_host
      "no_options\<lparr>opt_serviceAccountPath := Some ''/keys/service-account.json'',
             opt_oauthClientId := Some ''id'', opt_oauthClientSecret := Some ''secret'',
             opt_oauthRefreshToken := Some ''token''\<rparr>"
      "steady_google (sample_document [])" start]
    GoogleDocsClient_first_match [of sample_host
      "no_options\<lparr>opt_oauthClientId := Some ''id'', opt_oauthClientSecret := Some ''secret'',
             opt_oauthRefreshToken := Some ''token''\<rparr>"
      "steady_google (sample_document [])" start]
    GoogleDocsClient_first_match [of sample_host "no_options\<lparr>opt_oauthClientId := Some ''id''\<rparr>"
      "steady_google (sample_document [])" start]
    GoogleDocsClient_first_match [of "sample_host\<lparr>process_env := Map.empty\<rparr>"
      "no_options\<lparr>opt_apiKey := Some ''AIza-key''\<rparr>" "steady_google (sample_document [])" start]
  by (simp add: resolved_defs sample_host_def no_options_def)

text \<open>
  C4 as stated fails: with no API key, a key-file path at which no file exists, and a
  complete OAuth2 triple, the path is present, yet the Service Account strategy is not
  selected (nor is OAuth2): the construction fails.
\<close>

theorem GoogleDocsClient_key_file_not_selected_counterexample:
  "present (resolved_serviceAccountPath sample_host
     (no_options\<lparr>opt_serviceAccountPath := Some ''/keys/missing.json'',
        opt_oauthClientId := Some ''id'', opt_oauthClientSecret := Some ''secret'',
        opt_oauthRefreshToken := Some ''token''\<rparr>))
   \<and> fst (GoogleDocsClient sample_host (steady_google (sample_document []))
          (no_options\<lparr>opt_serviceAccountPath := Some ''/keys/missing.json'',
             opt_oauthClientId := Some ''id'', opt_oauthClientSecret := Some ''secret'',
             opt_oauthRefreshToken := Some ''token''\<rparr>) start)
     = Inl (new_Error ''Service account key file not found at: /keys/missing.json'')"
  by (simp add: GoogleDocsClient_def resolve_auth_def resolved_defs sample_host_def no_options_def io_defs)

text \<open>
  C7, as amended. When a project id is present and no API key is, a service-account
  key-file path (argument or environment) at which no file exists fails the construction
  with an error whose message ends in that path, before any remote call.
\<close>

theorem GoogleDocsClient_missing_key_file:
  assumes "resolved_projectId h options \<noteq> []"
      and "\<not> present (resolved_apiKey h options)"
      and "resolved_serviceAccountPath h options = Some path"
      and "path \<noteq> []"
      and "\<not> fs_existsSync h path"
  shows "fst (GoogleDocsClient h google options s) =
           Inl (new_Error (''Service account key file not found at: '' @ path))
       \<and> err_message (new_Error (''Service account key file not found at: '' @ path)) =
           JStr (''Service account key file not found at: '' @ path)
       \<and> requests (snd (GoogleDocsClient h google options s)) = requests s"
  using assms GoogleDocsClient_no_remote [of h google options s]
  unfolding GoogleDocsClient_result resolve_auth_result
  by (simp add: new_Error_def)

theorem GoogleDocsClient_missing_key_file_witness:
  "resolved_projectId sample_host (no_options\<lparr>opt_serviceAccountPath := Some ''/keys/missing.json''\<rparr>) \<noteq> []
   \<and> \<not> present (resolved_apiKey sample_host (no_options\<lparr>opt_serviceAccountPath := Some ''/keys/missing.json''\<rparr>))
   \<and> resolved_serviceAccountPath sample_host (no_options\<lparr>opt_serviceAccountPath := Some ''/keys/missing.json''\<rparr>)
       = Some ''/keys/missing.json''
   \<and> \<not> fs_existsSync sample_host ''/keys/missing.json''
   \<and> fst (GoogleDocsClient sample_host (steady_google (sample_document []))
          (no_options\<lparr>opt_serviceAccountPath := Some ''/keys/missing.json''\<rparr>) start) =
        Inl (new_Error ''Service account key file not found at: /keys/missing.json'')"
  using GoogleDocsClient_missing_key_file [of sample_host
      "no_options\<lparr>opt_serviceAccountPath := Some ''/keys/missing.json''\<rparr>" "''/keys/missing.json''"
      "steady_google (sample_document [])" start]
  by (simp add: resolved_defs sample_host_def no_options_def)

text \<open>
  C7 as stated fails: beside an API key, a key-file path at which no file exists does
  not fail the construction. The API key is matched first and the file is never looked
  for.
\<close>

theorem GoogleDocsClient_api_key_skips_key_file_counterexample:
  "resolved_serviceAccountPath sample_host
     (no_options\<lparr>opt_apiKey := Some ''AIza-key'', opt_serviceAccountPath := Some ''/keys/missing.json''\<rparr>)
     = Some ''/keys/missing.json''
   \<and> \<not> fs_existsSync sample_host ''/keys/missing.json''
   \<and> map_sum err_message auth
        (fst (GoogleDocsClient sample_host (steady_google (sample_document []))
           (no_options\<lparr>opt_apiKey := Some ''AIza-key'', opt_serviceAccountPath := Some ''/keys/missing.json''\<rparr>)
           start))
       = Inr (ApiKey ''AIza-key'')"
  by (simp add: GoogleDocsClient_def resolve_auth_def resolved_defs sample_host_def no_options_def io_defs)

section \<open>The operations\<close>

text \<open>
  C10. createDocument with the empty string as content is the same action as
  createDocument with no content. For a string content, an insert batch-update is among
  the requests issued exactly when the string is not empty and the create call returned
  a document id. With the empty string, when the create call and the fetch succeed, the
  requests issued are the create and the fetch alone, and the result is the created
  document: its id, the title, its url and the document fetched. With a string that is
  not empty and a document id, when the three calls succeed, the one insert of the whole
  string at index 1 goes out between the create and the fetch, and the result is the
  created document again.
\<close>

theorem createDocument_empty_content:
  "createDocument this title (JStr []) = createDocument this title JUndefined
   \<and> ((\<exists>d rs. Documents_batchUpdate d rs \<in> set (issued (createDocument this title (JStr c)) s))
        = (c \<noteq> [] \<and> (\<exists>f w'. files_create (driveClient this) title ''application/vnd.google-apps.document''
                               (world s) = (Inr f, w')
               \<and> truthy (file_id f))))
   \<and> (\<forall>f w1 d w2.
         files_create (driveClient this) title ''application/vnd.google-apps.document'' (world s) = (Inr f, w1)
         \<and> documents_get (docsClient this) (js_or (file_id f) (JStr [])) w1 = (Inr d, w2) \<longrightarrow>
         fst (createDocument this title (JStr []) s) =
           Inr (Created (file_id f) title
                  (''https://docs.google.com/document/d/'' @ js_string_of (file_id f) @ ''/edit'') d)
         \<and> issued (createDocument this title (JStr [])) s =
           [Files_create title ''application/vnd.google-apps.document'',
            Documents_get (js_or (file_id f) (JStr []))]
         \<and> world (snd (createDocument this title (JStr []) s)) = w2)
   \<and> (\<forall>f w1 w2 d w3.
         c \<noteq> [] \<and> truthy (file_id f)
         \<and> files_create (driveClient this) title ''application/vnd.google-apps.document'' (world s) = (Inr f, w1)
         \<and> documents_batchUpdate (docsClient this) (file_id f) [InsertText 1 (JStr c)] w1 = (Inr (), w2)
         \<and> documents_get (docsClient this) (file_id f) w2 = (Inr d, w3) \<longrightarrow>
         fst (createDocument this title (JStr c) s) =
           Inr (Created (file_id f) title
                  (''https://docs.google.com/document/d/'' @ js_string_of (file_id f) @ ''/edit'') d)
         \<and> issued (createDocument this title (JStr c)) s =
           [Files_create title ''application/vnd.google-apps.document'',
            Documents_batchUpdate (file_id f) [InsertText 1 (JStr c)],
            Documents_get (file_id f)])"
  apply (intro conjI)
     apply (simp add: createDocument_def)
    apply (simp add: createDocument_def issued_def client_calls io_defs convertContentToRequests_def
      mime_document_def split: prod.splits sum.splits)
   apply (simp add: createDocument_def issued_def client_calls io_defs convertContentToRequests_def
      mime_document_def)
  apply (auto simp add: createDocument_def issued_def client_calls io_defs convertContentToRequests_def
      mime_document_def js_or_def)
  done

text \<open>
  On the steady service: the empty content and the absent content issue the create and
  the fetch only and return the created document; a content of five characters issues
  the insert between them and returns the created document too.
\<close>

theorem createDocument_empty_content_witness:
  "createDocument (api_key_client (steady_google (sample_document []))) (JStr ''Notes'') (JStr []) start
     = createDocument (api_key_client (steady_google (sample_document []))) (JStr ''Notes'') JUndefined start
   \<and> files_create (driveClient (api_key_client (steady_google (sample_document [])))) (JStr ''Notes'')
        ''application/vnd.google-apps.document'' (world start) = (Inr sample_file, ())
   \<and> file_id sample_file = JStr ''doc1''
   \<and> fst (createDocument (api_key_client (steady_google (sample_document []))) (JStr ''Notes'') (JStr [])
        start)
       = Inr (Created (JStr ''doc1'') (JStr ''Notes'') ''https://docs.google.com/document/d/doc1/edit''
                (sample_document []))
   \<and> issued (createDocument (api_key_client (steady_google (sample_document []))) (JStr ''Notes'') (JStr []))
       start = [Files_create (JStr ''Notes'') ''application/vnd.google-apps.document'',
                Documents_get (JStr ''doc1'')]
   \<and> fst (createDocument (api_key_client (steady_google (sample_document []))) (JStr ''Notes'')
        (JStr ''Hello'') start)
       = Inr (Created (JStr ''doc1'') (JStr ''Notes'') ''https://docs.google.com/document/d/doc1/edit''
                (sample_document []))
   \<and> issued (createDocument (api_key_client (steady_google (sample_document []))) (JStr ''Notes'')
         (JStr ''Hello'')) start
       = [Files_create (JStr ''Notes'') ''application/vnd.google-apps.document'',
          Documents_batchUpdate (JStr ''doc1'') [InsertText 1 (JStr ''Hello'')],
          Documents_get (JStr ''doc1'')]"
proof -
  let ?c = "api_key_client (steady_google (sample_document []))"
  have created: "files_create (driveClient ?c) (JStr ''Notes'') ''application/vnd.google-apps.document''
      (world start) = (Inr sample_file, ())"
    by (simp add: api_key_client_def steady_google_def steady_drive_def)
  have id: "file_id sample_file = JStr ''doc1''"
    by (simp add: sample_file_def)
  have fetched: "documents_get (docsClient ?c) (js_or (file_id sample_file) (JStr [])) ()
      = (Inr (sample_document []), ())"
    by (simp add: api_key_client_def steady_google_def steady_docs_def)
  have fetched': "documents_get (docsClient ?c) (file_id sample_file) () = (Inr (sample_document []), ())"
    by (simp add: api_key_client_def steady_google_def steady_docs_def)
  have inserted: "documents_batchUpdate (docsClient ?c) (file_id sample_file)
      [InsertText 1 (JStr ''Hello'')] () = (Inr (), ())"
    by (simp add: api_key_client_def steady_google_def steady_docs_def)
  have given: "''Hello'' \<noteq> []" "truthy (file_id sample_file)"
    by (simp_all add: sample_file_def)
  note thm1 = createDocument_empty_content [of ?c "JStr ''Notes''" "''Hello''" start]
  from thm1 have same: "createDocument ?c (JStr ''Notes'') (JStr []) = createDocument ?c (JStr ''Notes'') JUndefined"
    by blast
  from thm1 created fetched have
    "fst (createDocument ?c (JStr ''Notes'') (JStr []) start)
       = Inr (Created (file_id sample_file) (JStr ''Notes'')
                (''https://docs.google.com/document/d/'' @ js_string_of (file_id sample_file) @ ''/edit'')
                (sample_document []))
     \<and> issued (createDocument ?c (JStr ''Notes'') (JStr [])) start
       = [Files_create (JStr ''Notes'') ''application/vnd.google-apps.document'',
          Documents_get (js_or (file_id sample_file) (JStr []))]"
    by blast
  then have empty:
    "fst (createDocument ?c (JStr ''Notes'') (JStr []) start)
       = Inr (Created (JStr ''doc1'') (JStr ''Notes'') ''https://docs.google.com/document/d/doc1/edit''
                (sample_document []))
     \<and> issued (createDocument ?c (JStr ''Notes'') (JStr [])) start
       = [Files_create (JStr ''Notes'') ''application/vnd.google-apps.document'',
          Documents_get (JStr ''doc1'')]"
    by (simp add: id js_or_def)
  from thm1 created fetched' inserted given have
    "fst (createDocument ?c (JStr ''Notes'') (JStr ''Hello'') start)
       = Inr (Created (file_id sample_file) (JStr ''Notes'')
                (''https://docs.google.com/document/d/'' @ js_string_of (file_id sample_file) @ ''/edit'')
                (sample_document []))
     \<and> issued (createDocument ?c (JStr ''Notes'') (JStr ''Hello'')) start
       = [Files_create (JStr ''Notes'') ''application/vnd.google-apps.document'',
          Documents_batchUpdate (file_id sample_file) [InsertText 1 (JStr ''Hello'')],
          Documents_get (file_id sample_file)]"
    by blast
  then have hello:
    "fst (createDocument ?c (JStr ''Notes'') (JStr ''Hello'') start)
       = Inr (Created (JStr ''doc1'') (JStr ''Notes'') ''https://docs.google.com/document/d/doc1/edit''
                (sample_document []))
     \<and> issued (createDocument ?c (JStr ''Notes'') (JStr ''Hello'')) start
       = [Files_create (JStr ''Notes'') ''application/vnd.google-apps.document'',
          Documents_batchUpdate (JStr ''doc1'') [InsertText 1 (JStr ''Hello'')],
          Documents_get (JStr ''doc1'')]"
    by (simp add: id)
  from same created id empty hello show ?thesis by simp
qed

text \<open>
  C8. searchDocuments issues one list request whose filter is the document mime-type
  condition and (name contains 'query' or fullText contains 'query'), the query string
  standing between the quotes character for character; the page size is the argument,
  and 10 when the argument is absent.
\<close>

theorem searchDocuments_filter:
  "issued (searchDocuments this (JStr query) (JNum n) pageToken) s =
     [Files_list (JNum n) pageToken
        (''mimeType='application/vnd.google-apps.document' and (name contains '' @ [CHR 0x27] @ query
           @ ''' or fullText contains '' @ [CHR 0x27] @ query @ ''')'')
        ''nextPageToken, files(id, name, createdTime, modifiedTime, webViewLink)'']
   \<and> issued (searchDocuments this (JStr query) JUndefined pageToken) s =
     [Files_list (JNum 10) pageToken
        (''mimeType='application/vnd.google-apps.document' and (name contains '' @ [CHR 0x27] @ query
           @ ''' or fullText contains '' @ [CHR 0x27] @ query @ ''')'')
        ''nextPageToken, files(id, name, createdTime, modifiedTime, webViewLink)'']"
  by (simp add: searchDocuments_def issued_def client_calls io_defs default_param_def search_query_def
      list_fields_def single_quote_def split: prod.splits sum.splits)

text \<open>A query that holds a quote reaches the filter as it is.\<close>

theorem searchDocuments_filter_witness:
  "issued (searchDocuments (api_key_client (steady_google (sample_document [])))
       (JStr ''x' or name contains 'y'') JUndefined JUndefined) start =
     [Files_list (JNum 10) JUndefined
        ''mimeType='application/vnd.google-apps.document' and (name contains 'x' or name contains 'y' or fullText contains 'x' or name contains 'y')''
        ''nextPageToken, files(id, name, createdTime, modifiedTime, webViewLink)'']"
  using searchDocuments_filter
    [of "api_key_client (steady_google (sample_document []))" "''x' or name contains 'y''" 10
      JUndefined start]
  by simp

lemma last_block: "Suc 0 < length blocks \<Longrightarrow> blocks ! (length blocks - Suc 0) = last blocks"
  by (cases blocks rule: rev_cases) simp_all

text \<open>
  C3, as amended. Let updateDocument be called with replaceAll true, and let the
  document fetched first have a body with a content list. When the list has more than
  one block and the delete, the insert and the second fetch succeed, the requests issued
  are the fetch, one delete-content-range with range [1, e - 1], the insert of the new
  content at index 1 and the second fetch, where e is the last block's endIndex, and 1
  when that endIndex is absent or 0. When the list has exactly one block and the insert
  and the second fetch succeed, the requests issued are the fetch, the insert and the
  second fetch, with no delete. In both cases the result is the document fetched last.
\<close>

theorem updateDocument_replaceAll:
  assumes "documents_get (docsClient this) documentId (world s) = (Inr currentDoc, w1)"
      and "doc_body currentDoc = Some body"
      and "body_content body = Some blocks"
  shows "(length blocks > 1
          \<and> documents_batchUpdate (docsClient this) documentId
               [DeleteContentRange 1 (number_or (se_endIndex (last blocks)) 1 - 1)] w1 = (Inr (), w2)
          \<and> documents_batchUpdate (docsClient this) documentId [InsertText 1 content] w2 = (Inr (), w3)
          \<and> documents_get (docsClient this) documentId w3 = (Inr final, w4)
          \<longrightarrow>
            issued (updateDocument this documentId content (JBool True)) s =
              [Documents_get documentId,
               Documents_batchUpdate documentId
                 [DeleteContentRange 1 (number_or (se_endIndex (last blocks)) 1 - 1)],
               Documents_batchUpdate documentId [InsertText 1 content],
               Documents_get documentId]
            \<and> fst (updateDocument this documentId content (JBool True) s) = Inr (RawDocument final))
       \<and> (length blocks = 1
          \<and> documents_batchUpdate (docsClient this) documentId [InsertText 1 content] w1 = (Inr (), w3)
          \<and> documents_get (docsClient this) documentId w3 = (Inr final, w4)
          \<longrightarrow>
            issued (updateDocument this documentId content (JBool True)) s =
              [Documents_get documentId,
               Documents_batchUpdate documentId [InsertText 1 content],
               Documents_get documentId]
            \<and> fst (updateDocument this documentId content (JBool True) s) = Inr (RawDocument final))"
  using assms
  by (auto simp add: updateDocument_def clear_document_def convertContentToRequests_def issued_def
      default_param_def last_block client_calls io_defs)

text \<open>
  On the steady service: a document of two blocks ending at index 12 is cleared with the
  range [1, 11]; a document of its first block alone is not cleared.
\<close>

theorem updateDocument_replaceAll_witness:
  "documents_get (docsClient (api_key_client (steady_google (sample_document [first_block, text_block 12]))))
      (JStr ''doc1'') (world start)
     = (Inr (sample_document [first_block, text_block 12]), ())
   \<and> issued (updateDocument (api_key_client (steady_google (sample_document [first_block, text_block 12])))
        (JStr ''doc1'') (JStr ''new text'') (JBool True)) start =
       [Documents_get (JStr ''doc1''),
        Documents_batchUpdate (JStr ''doc1'') [DeleteContentRange 1 11],
        Documents_batchUpdate (JStr ''doc1'') [InsertText 1 (JStr ''new text'')],
        Documents_get (JStr ''doc1'')]
   \<and> fst (updateDocument (api_key_client (steady_google (sample_document [first_block, text_block 12])))
        (JStr ''doc1'') (JStr ''new text'') (JBool True) start) =
       Inr (RawDocument (sample_document [first_block, text_block 12]))
   \<and> issued (updateDocument (api_key_client (steady_google (sample_document [first_block])))
        (JStr ''doc1'') (JStr ''new text'') (JBool True)) start =
       [Documents_get (JStr ''doc1''),
        Documents_batchUpdate (JStr ''doc1'') [InsertText 1 (JStr ''new text'')],
        Documents_get (JStr ''doc1'')]
   \<and> fst (updateDocument (api_key_client (steady_google (sample_document [first_block])))
        (JStr ''doc1'') (JStr ''new text'') (JBool True) start) =
       Inr (RawDocument (sample_document [first_block]))"
  using
    updateDocument_replaceAll [of
      "api_key_client (steady_google (sample_document [first_block, text_block 12]))"
      "JStr ''doc1''" start "sample_document [first_block, text_block 12]" "()"
      "\<lparr>body_content = Some [first_block, text_block 12]\<rparr>" "[first_block, text_block 12]"
      "()" "JStr ''new text''" "()" "sample_document [first_block, text_block 12]" "()"]
    updateDocument_replaceAll [of
      "api_key_client (steady_google (sample_document [first_block]))"
      "JStr ''doc1''" start "sample_document [first_block]" "()"
      "\<lparr>body_content = Some [first_block]\<rparr>" "[first_block]"
      "()" "JStr ''new text''" "()" "sample_document [first_block]" "()"]
  by (simp add: api_key_client_def steady_google_def steady_docs_def sample_document_def
      first_block_def text_block_def)

text \<open>
  C3 as stated fails: when the last of two blocks has endIndex 0, the range the claim
  gives ends at 0 - 1, and the delete request issued ends at 0.
\<close>

theorem updateDocument_endIndex_counterexample:
  "se_endIndex (last [first_block, text_block 0]) = Some 0
   \<and> issued (updateDocument (api_key_client (steady_google (sample_document [first_block, text_block 0])))
        (JStr ''doc1'') (JStr ''new text'') (JBool True)) start =
       [Documents_get (JStr ''doc1''),
        Documents_batchUpdate (JStr ''doc1'') [DeleteContentRange 1 0],
        Documents_batchUpdate (JStr ''doc1'') [InsertText 1 (JStr ''new text'')],
        Documents_get (JStr ''doc1'')]
   \<and> DeleteContentRange 1 0 \<noteq> DeleteContentRange 1 (0 - 1)"
  by (simp add: updateDocument_def clear_document_def convertContentToRequests_def issued_def
      default_param_def client_calls io_defs api_key_client_def steady_google_def steady_docs_def
      sample_document_def start_def first_block_def text_block_def)

subsection \<open>Failures are caught\<close>

lemma createDocument_caught: "caught_as message_only (createDocument this title content) s"
  by (simp add: createDocument_def convertContentToRequests_def client_calls io_defs shape_defs
      split: prod.splits sum.splits)

lemma getDocument_caught: "caught_as message_only (getDocument this documentId) s"
  by (simp add: getDocument_def client_calls io_defs shape_defs split: prod.splits sum.splits)

lemma updateDocument_caught: "caught_as message_only (updateDocument this documentId content replaceAll) s"
  by (auto simp add: updateDocument_def clear_document_def convertContentToRequests_def client_calls
      io_defs shape_defs split: prod.splits sum.splits option.splits if_splits)

lemma listDocuments_caught: "caught_as message_only (listDocuments this pageSize pageToken) s"
  by (simp add: listDocuments_def client_calls io_defs shape_defs split: prod.splits sum.splits)

lemma deleteDocument_caught: "caught_as unsuccessful (deleteDocument this documentId) s"
  by (simp add: deleteDocument_def client_calls io_defs shape_defs split: prod.splits sum.splits)

lemma exportDocument_caught: "caught_as message_only (exportDocument this documentId mimeType) s"
  by (simp add: exportDocument_def client_calls io_defs shape_defs split: prod.splits sum.splits)

lemma shareDocument_caught: "caught_as unsuccessful (shareDocument this documentId emailAddress role) s"
  by (simp add: shareDocument_def client_calls io_defs shape_defs split: prod.splits sum.splits)

lemma searchDocuments_caught: "caught_as message_only (searchDocuments this query pageSize pageToken) s"
  by (simp add: searchDocuments_def client_calls io_defs shape_defs split: prod.splits sum.splits)

lemma verifyConnection_caught: "caught_as (not_connected this s) (verifyConnection this) s"
  by (simp add: verifyConnection_def client_calls io_defs shape_defs split: prod.splits sum.splits)

text \<open>
  C5, as amended. None of the nine operations throws: each returns, and when a remote
  call failed during the run the result is the error of that call in the operation's
  shape: {error: message} for create, get, update, list, export and search,
  {success: false, error: message} for delete and share, and
  {connected: false, projectId, timestamp, error: {message, code, details}} for
  verifyConnection.
\<close>

theorem operations_catch_failures:
  "caught_as message_only (createDocument this title content) s
   \<and> caught_as message_only (getDocument this documentId) s
   \<and> caught_as message_only (updateDocument this documentId content replaceAll) s
   \<and> caught_as message_only (listDocuments this pageSize pageToken) s
   \<and> caught_as unsuccessful (deleteDocument this documentId) s
   \<and> caught_as message_only (exportDocument this documentId mimeType) s
   \<and> caught_as unsuccessful (shareDocument this documentId emailAddress role) s
   \<and> caught_as message_only (searchDocuments this query pageSize pageToken) s
   \<and> caught_as (not_connected this s) (verifyConnection this) s"
  by (intro conjI createDocument_caught getDocument_caught updateDocument_caught listDocuments_caught
      deleteDocument_caught exportDocument_caught shareDocument_caught searchDocuments_caught
      verifyConnection_caught)

text \<open>On the service that refuses every call, one operation of each shape.\<close>

theorem operations_catch_failures_witness:
  "fst (createDocument (api_key_client (broken_google forbidden)) (JStr ''Notes'') JUndefined start)
     = Inr (ErrorOnly (JStr ''Request had insufficient authentication scopes.''))
   \<and> fst (deleteDocument (api_key_client (broken_google forbidden)) (JStr ''doc1'') start)
     = Inr (Failed (JStr ''Request had insufficient authentication scopes.''))
   \<and> fst (verifyConnection (api_key_client (broken_google forbidden)) start)
     = Inr (NotConnected ''my-project'' ''2025-04-15T07:30:00.000Z''
         \<lparr>ed_message = JStr ''Request had insufficient authentication scopes.'', ed_code = JNum 403,
          ed_details = JStr ''Error: Request had insufficient authentication scopes.''\<rparr>)
   \<and> failures (snd (createDocument (api_key_client (broken_google forbidden)) (JStr ''Notes'') JUndefined start))
     = [forbidden]"
proof -
  let ?c = "api_key_client (broken_google forbidden)"
  have f1: "failures (snd (createDocument ?c (JStr ''Notes'') JUndefined start)) = [forbidden]"
    by (simp add: createDocument_def client_calls io_defs api_key_client_def broken_google_def
        broken_drive_def start_def)
  have f2: "failures (snd (deleteDocument ?c (JStr ''doc1'') start)) = [forbidden]"
    by (simp add: deleteDocument_def client_calls io_defs api_key_client_def broken_google_def
        broken_drive_def start_def)
  have f3: "failures (snd (verifyConnection ?c start)) = [forbidden]"
    by (simp add: verifyConnection_def client_calls io_defs api_key_client_def broken_google_def
        broken_drive_def start_def)
  have s0: "failures start = []" "clock start = ''2025-04-15T07:30:00.000Z''" "projectId ?c = ''my-project''"
    by (simp_all add: start_def api_key_client_def)
  note t = operations_catch_failures [of ?c "JStr ''Notes''" JUndefined start "JStr ''doc1''" JUndefined
      JUndefined JUndefined JUndefined JUndefined JUndefined JUndefined]
  from t have "caught_as message_only (createDocument ?c (JStr ''Notes'') JUndefined) start" by simp
  with f1 s0 have r1: "fst (createDocument ?c (JStr ''Notes'') JUndefined start)
      = Inr (ErrorOnly (JStr ''Request had insufficient authentication scopes.''))"
    by (auto simp add: caught_as_def message_only_def forbidden_def split: prod.splits sum.splits)
  from t have "caught_as unsuccessful (deleteDocument ?c (JStr ''doc1'')) start" by simp
  with f2 s0 have r2: "fst (deleteDocument ?c (JStr ''doc1'') start)
      = Inr (Failed (JStr ''Request had insufficient authentication scopes.''))"
    by (auto simp add: caught_as_def unsuccessful_def forbidden_def split: prod.splits sum.splits)
  from t have "caught_as (not_connected ?c start) (verifyConnection ?c) start" by simp
  with f3 s0 have r3: "fst (verifyConnection ?c start)
      = Inr (NotConnected ''my-project'' ''2025-04-15T07:30:00.000Z''
         \<lparr>ed_message = JStr ''Request had insufficient authentication scopes.'', ed_code = JNum 403,
          ed_details = JStr ''Error: Request had insufficient authentication scopes.''\<rparr>)"
    by (auto simp add: caught_as_def not_connected_def forbidden_def js_or_def split: prod.splits sum.splits)
  from r1 r2 r3 f1 show ?thesis by simp
qed

text \<open>
  C5 as stated fails: the failure result of verifyConnection is neither {error: message}
  nor {success: false, error: message}. Its error is a descriptor, not a message, beside
  connected, projectId and timestamp.
\<close>

theorem verifyConnection_shape_counterexample:
  "failures (snd (verifyConnection (api_key_client (broken_google hang_up)) start)) = [hang_up]
   \<and> fst (verifyConnection (api_key_client (broken_google hang_up)) start) =
       Inr (NotConnected ''my-project'' ''2025-04-15T07:30:00.000Z''
         \<lparr>ed_message = JStr ''socket hang up'', ed_code = JStr ''UNKNOWN_ERROR'',
          ed_details = JStr ''Error: socket hang up at TLSSocket.onHangUp (node:_http_client:524:26)''\<rparr>)
   \<and> \<not> caught_as message_only (verifyConnection (api_key_client (broken_google hang_up))) start
   \<and> \<not> caught_as unsuccessful (verifyConnection (api_key_client (broken_google hang_up))) start"
  by (simp add: verifyConnection_def client_calls io_defs shape_defs api_key_client_def broken_google_def
      broken_drive_def hang_up_def start_def js_or_def)

section \<open>Connection verification\<close>

text \<open>
  C6. For a client made by the constructor, when the single-item list call succeeds,
  verifyConnection returns connected: true with the project id, the timestamp, the
  authType of the credential branch the constructor took ('API Key', 'Service Account' or
  'OAuth2'), apiVersion 'v1' and, as documentCount, the number of files the call
  returned (0 when it returned no file list); the call is the only request issued, for
  one item of the document mime type.
\<close>

theorem verifyConnection_connected:
  assumes "fst (GoogleDocsClient h google options s0) = Inr this"
      and "files_list (driveClient this) (JNum 1) JUndefined
             (''mimeType='application/vnd.google-apps.document'' @ [CHR 0x27]) ''files(id, name)'' (world s)
           = (Inr response, w')"
  shows "fst (verifyConnection this s) =
           Inr (Connected (resolved_projectId h options) (clock s)
             \<lparr>authType =
                (if present (resolved_apiKey h options) then ''API Key''
                 else if present (resolved_serviceAccountPath h options) then ''Service Account''
                 else ''OAuth2''),
              apiVersion = ''v1'',
              documentCount = (case files response of None \<Rightarrow> 0 | Some fs \<Rightarrow> length fs)\<rparr>)
       \<and> issued (verifyConnection this) s =
           [Files_list (JNum 1) JUndefined (''mimeType='application/vnd.google-apps.document'' @ [CHR 0x27])
              ''files(id, name)'']"
  using assms(2) GoogleDocsClient_authType [OF assms(1)]
  by (simp add: verifyConnection_def issued_def client_calls io_defs list_query_def single_quote_def)

text \<open>A client constructed from an API key, on the steady service, which lists one file.\<close>

theorem verifyConnection_connected_witness:
  "fst (GoogleDocsClient sample_host (steady_google (sample_document []))
          (no_options\<lparr>opt_apiKey := Some ''AIza-key''\<rparr>) start)
     = Inr (api_key_client (steady_google (sample_document [])))
   \<and> files_list (driveClient (api_key_client (steady_google (sample_document [])))) (JNum 1) JUndefined
        (''mimeType='application/vnd.google-apps.document'' @ [CHR 0x27]) ''files(id, name)'' (world start)
      = (Inr \<lparr>files = Some [sample_file], nextPageToken = JUndefined\<rparr>, ())
   \<and> fst (verifyConnection (api_key_client (steady_google (sample_document []))) start) =
        Inr (Connected ''my-project'' ''2025-04-15T07:30:00.000Z''
          \<lparr>authType = ''API Key'', apiVersion = ''v1'', documentCount = 1\<rparr>)"
proof -
  have c: "fst (GoogleDocsClient sample_host (steady_google (sample_document []))
          (no_options\<lparr>opt_apiKey := Some ''AIza-key''\<rparr>) start)
     = Inr (api_key_client (steady_google (sample_document [])))"
    by (simp add: GoogleDocsClient_def resolve_auth_def resolved_defs sample_host_def no_options_def
        api_key_client_def io_defs)
  have l: "files_list (driveClient (api_key_client (steady_google (sample_document [])))) (JNum 1) JUndefined
        (''mimeType='application/vnd.google-apps.document'' @ [CHR 0x27]) ''files(id, name)'' (world start)
      = (Inr \<lparr>files = Some [sample_file], nextPageToken = JUndefined\<rparr>, ())"
    by (simp add: api_key_client_def steady_google_def steady_drive_def)
  show ?thesis
    using c l verifyConnection_connected [OF c l]
    by (simp add: resolved_defs sample_host_def no_options_def start_def)
qed

text \<open>
  C2, as amended. When the list call of verifyConnection fails, the result carries an
  error descriptor of exactly three fields: the error's message, the error's code or
  'UNKNOWN_ERROR' when it has none, and as details the error's own details when it has
  any, and the error's raw stack trace when it has none.
\<close>

theorem verifyConnection_error_descriptor:
  assumes "files_list (driveClient this) (JNum 1) JUndefined list_query ''files(id, name)'' (world s)
             = (Inl e, w')"
  shows "fst (verifyConnection this s) =
           Inr (NotConnected (projectId this) (clock s)
             \<lparr>ed_message = err_message e,
              ed_code = (if truthy (err_code e) then err_code e else JStr ''UNKNOWN_ERROR''),
              ed_details = (if truthy (err_details e) then err_details e else err_stack e)\<rparr>)"
  using assms
  by (simp add: verifyConnection_def client_calls io_defs js_or_def)

text \<open>A permission failure with code 403 and no details: the details are the stack.\<close>

theorem verifyConnection_error_descriptor_witness:
  "files_list (driveClient (api_key_client (broken_google forbidden))) (JNum 1) JUndefined list_query
      ''files(id, name)'' (world start) = (Inl forbidden, ())
   \<and> fst (verifyConnection (api_key_client (broken_google forbidden)) start) =
       Inr (NotConnected ''my-project'' ''2025-04-15T07:30:00.000Z''
         \<lparr>ed_message = JStr ''Request had insufficient authentication scopes.'', ed_code = JNum 403,
          ed_details = JStr ''Error: Request had insufficient authentication scopes.''\<rparr>)"
  using verifyConnection_error_descriptor [of "api_key_client (broken_google forbidden)" start forbidden "()"]
  by (simp add: api_key_client_def broken_google_def broken_drive_def forbidden_def start_def)

text \<open>
  C2 as stated fails: when the remote call fails with an error that has no details, the
  google_docs_verify_connection tool answers the protocol caller with the error's stack
  trace, as the details of the error descriptor.
\<close>

theorem verifyConnection_stack_counterexample:
  "err_stack hang_up = JStr ''Error: socket hang up at TLSSocket.onHangUp (node:_http_client:524:26)''
   \<and> fst (CallTool_handler sample_McpError (api_key_client (broken_google hang_up))
          \<lparr>params_name = ''google_docs_verify_connection'', params_arguments = None\<rparr> start) =
     Inr \<lparr>result_content =
            [TextJson (NotConnected ''my-project'' ''2025-04-15T07:30:00.000Z''
               \<lparr>ed_message = JStr ''socket hang up'', ed_code = JStr ''UNKNOWN_ERROR'',
                ed_details = JStr ''Error: socket hang up at TLSSocket.onHangUp (node:_http_client:524:26)''\<rparr>)],
          isError = None\<rparr>"
  by (simp add: CallTool_handler_def verifyConnection_def json_result_def api_key_client_def
      broken_google_def broken_drive_def hang_up_def start_def client_calls io_defs js_or_def)

section \<open>The dispatcher\<close>

text \<open>
  C1 does not hold of the code. For every tool name outside the nine registered names,
  the handler does not throw: the method-not-found error made in the default branch is
  caught by the handler's own catch clause, and the caller is answered with an ordinary
  tool result, isError true, whose text is the error's message after the prefix of every
  caught failure.
\<close>

theorem CallTool_handler_unknown_tool:
  assumes "params_name request \<notin> set tool_names"
  shows "fst (CallTool_handler McpError googleDocs request s) =
           Inr \<lparr>result_content =
                  [TextPlain (''Google Docs API error: '' @ js_string_of (err_message
                     (McpError MethodNotFound (''Unknown tool: '' @ params_name request))))],
                isError = Some True\<rparr>"
  using assms
  by (simp add: CallTool_handler_def tool_names_def tools_def io_defs)

text \<open>The handler at the unregistered name google_docs_rename.\<close>

theorem CallTool_handler_unknown_tool_witness:
  "''google_docs_rename'' \<notin> set tool_names
   \<and> fst (CallTool_handler sample_McpError (api_key_client (steady_google (sample_document [])))
          \<lparr>params_name = ''google_docs_rename'', params_arguments = None\<rparr> start) =
       Inr \<lparr>result_content =
              [TextPlain ''Google Docs API error: MCP error -32601: Unknown tool: google_docs_rename''],
            isError = Some True\<rparr>"
  using CallTool_handler_unknown_tool [of "\<lparr>params_name = ''google_docs_rename'', params_arguments = None\<rparr>"
      sample_McpError "api_key_client (steady_google (sample_document []))" start]
  by (simp add: tool_names_def tools_def sample_McpError_def)

section \<open>The connectivity check, run\<close>






























end
